theory Spec2Isabelle
  imports Complex_Main
begin

section \<open>JavaScript values\<close>

text \<open>
  Both programs of the repository, the serverless endpoint \<^verbatim>\<open>api/enhancePrompt.js\<close> and the
  browser script \<^verbatim>\<open>js/script.js\<close>, handle untyped JavaScript values: the parsed request
  body, the completion returned by the SDK, the decoded response. A finite number is
  represented by its exact value; both zeros are \<open>JNum 0\<close>.
\<close>

datatype jsval =
    JUndefined
  | JNull
  | JBool bool
  | JNum rat
  | JNaN
  | JPosInfinity
  | JNegInfinity
  | JStr string
  | JArr "jsval list"
  | JObj "(string \<times> jsval) list"

text \<open>An exception: a \<^verbatim>\<open>TypeError\<close> of the language itself, or whatever a library throws
  (its class name and its message).\<close>

datatype js_error = TypeError | Thrown string string

text \<open>Truthiness, as \<^verbatim>\<open>!x\<close>, \<^verbatim>\<open>x || y\<close> and \<^verbatim>\<open>if (x)\<close> test it.\<close>

fun truthy :: "jsval \<Rightarrow> bool" where
  "truthy JUndefined = False"
| "truthy JNull = False"
| "truthy (JBool b) = b"
| "truthy (JNum r) = (r \<noteq> 0)"
| "truthy JNaN = False"
| "truthy JPosInfinity = True"
| "truthy JNegInfinity = True"
| "truthy (JStr s) = (s \<noteq> [])"
| "truthy (JArr xs) = True"
| "truthy (JObj kvs) = True"

fun nullish :: "jsval \<Rightarrow> bool" where
  "nullish JUndefined = True"
| "nullish JNull = True"
| "nullish v = False"

text \<open>\<^verbatim>\<open>a || b\<close>\<close>

definition or_else :: "jsval \<Rightarrow> jsval \<Rightarrow> jsval" where
  "or_else a b = (if truthy a then a else b)"

text \<open>
  \<^verbatim>\<open>v.name\<close> for the property names the two programs read (\<^verbatim>\<open>prompt\<close>, \<^verbatim>\<open>style\<close>,
  \<^verbatim>\<open>creativity\<close>, \<^verbatim>\<open>choices\<close>, \<^verbatim>\<open>message\<close>, \<^verbatim>\<open>content\<close>, \<^verbatim>\<open>enhancedPrompt\<close>,
  \<^verbatim>\<open>error\<close>): none of them is a member of a built-in prototype, so only an object can
  hold one. Reading a property of \<^verbatim>\<open>undefined\<close> or \<^verbatim>\<open>null\<close> throws.
\<close>

fun get_prop :: "jsval \<Rightarrow> string \<Rightarrow> js_error + jsval" where
  "get_prop JUndefined name = Inl TypeError"
| "get_prop JNull name = Inl TypeError"
| "get_prop (JObj kvs) name = Inr (case map_of kvs name of None \<Rightarrow> JUndefined | Some v \<Rightarrow> v)"
| "get_prop v name = Inr JUndefined"

text \<open>\<^verbatim>\<open>v[0]\<close>: the first element of an array, the first character of a string, the
  property \<^verbatim>\<open>"0"\<close> of an object.\<close>

fun index0 :: "jsval \<Rightarrow> js_error + jsval" where
  "index0 JUndefined = Inl TypeError"
| "index0 JNull = Inl TypeError"
| "index0 (JArr xs) = Inr (case xs of [] \<Rightarrow> JUndefined | x # _ \<Rightarrow> x)"
| "index0 (JStr s) = Inr (case s of [] \<Rightarrow> JUndefined | c # _ \<Rightarrow> JStr [c])"
| "index0 (JObj kvs) = Inr (case map_of kvs ''0'' of None \<Rightarrow> JUndefined | Some v \<Rightarrow> v)"
| "index0 v = Inr JUndefined"

text \<open>Optional chaining, \<^verbatim>\<open>v?.name\<close> and \<^verbatim>\<open>v?.[0]\<close>.\<close>

definition opt_prop :: "jsval \<Rightarrow> string \<Rightarrow> js_error + jsval" where
  "opt_prop v name = (if nullish v then Inr JUndefined else get_prop v name)"

definition opt_index0 :: "jsval \<Rightarrow> js_error + jsval" where
  "opt_index0 v = (if nullish v then Inr JUndefined else index0 v)"

subsection \<open>Conversion to a string\<close>

text \<open>Decimal digits of a natural number.\<close>

fun digits :: "nat \<Rightarrow> string" where
  "digits n =
     (if n < 10 then [''0123456789'' ! n] else digits (n div 10) @ [''0123456789'' ! (n mod 10)])"

declare digits.simps [simp del]

text \<open>
  \<^verbatim>\<open>String(v)\<close>, which a template literal \<^verbatim>\<open>`${v}`\<close> and the \<^verbatim>\<open>textContent\<close> setter
  apply.
  \<^item> An integral number of magnitude at most \<open>2\<^sup>5\<^sup>3\<close> prints as its decimal digits; the
    shortest round-trip rendering of any other finite number is left to the parameter
    \<open>fmt\<close>.
  \<^item> An array joins the conversions of its elements with commas, from left to right,
    \<^verbatim>\<open>undefined\<close> and \<^verbatim>\<open>null\<close> elements printing as nothing.
  \<^item> An object is converted by its \<^verbatim>\<open>toString\<close> method. Without a property of that
    name the inherited method answers \<^verbatim>\<open>[object Object]\<close>. A property of that name
    holds data, which cannot be called, and \<^verbatim>\<open>valueOf\<close> then yields no primitive
    either (its own property is data as well, the inherited method returns the object):
    the conversion throws a \<^verbatim>\<open>TypeError\<close>.
\<close>

fun to_string :: "(rat \<Rightarrow> string) \<Rightarrow> jsval \<Rightarrow> js_error + string"
  and join_strings :: "(rat \<Rightarrow> string) \<Rightarrow> jsval list \<Rightarrow> js_error + string" where
  "to_string fmt JUndefined = Inr ''undefined''"
| "to_string fmt JNull = Inr ''null''"
| "to_string fmt (JBool b) = Inr (if b then ''true'' else ''false'')"
| "to_string fmt (JNum r) =
     Inr (if r = of_int \<lfloor>r\<rfloor> \<and> \<bar>r\<bar> \<le> 2 ^ 53
          then (if r < 0 then ''-'' else []) @ digits (nat \<bar>\<lfloor>r\<rfloor>\<bar>)
          else fmt r)"
| "to_string fmt JNaN = Inr ''NaN''"
| "to_string fmt JPosInfinity = Inr ''Infinity''"
| "to_string fmt JNegInfinity = Inr ''-Infinity''"
| "to_string fmt (JStr s) = Inr s"
| "to_string fmt (JArr xs) = join_strings fmt xs"
| "to_string fmt (JObj kvs) =
     (case map_of kvs ''toString'' of
        None \<Rightarrow> Inr ''[object Object]''
      | Some v \<Rightarrow> Inl TypeError)"
| "join_strings fmt [] = Inr []"
| "join_strings fmt (x # xs) =
     (case (if nullish x then Inr [] else to_string fmt x) of
        Inl e \<Rightarrow> Inl e
      | Inr s \<Rightarrow>
          if xs = [] then Inr s
          else (case join_strings fmt xs of
                  Inl e \<Rightarrow> Inl e
                | Inr t \<Rightarrow> Inr (s @ '','' @ t)))"

section \<open>The enhancement endpoint (\<^verbatim>\<open>api/enhancePrompt.js\<close>)\<close>

record request =
  req_method :: string
  req_body :: jsval

text \<open>What \<^verbatim>\<open>res.status(n).json(v)\<close> and \<^verbatim>\<open>res.status(n).end()\<close> send: \<open>payload\<close> is the
  value handed to \<^verbatim>\<open>json\<close>, and \<open>None\<close> after \<^verbatim>\<open>end()\<close>.\<close>

record response =
  status :: nat
  payload :: "jsval option"

record message =
  role :: string
  content :: jsval

text \<open>The argument of \<^verbatim>\<open>openai.chat.completions.create\<close>.\<close>

record completion_request =
  model :: string
  messages :: "message list"
  temperature :: rat

text \<open>
  What the handler takes from outside the repository: the environment variable, the
  constructor of the SDK's client and its completion call (either may throw or reject),
  and the rendering of non-integral numbers.
\<close>

record 'c runtime =
  OPENAI_API_KEY :: jsval
  new_OpenAI :: "jsval \<Rightarrow> js_error + 'c"
  create :: "'c \<Rightarrow> completion_request \<Rightarrow> js_error + jsval"
  frac_to_string :: "rat \<Rightarrow> string"

text \<open>What one invocation does: the response, the completion requests submitted, in
  order, and the lines written by \<^verbatim>\<open>console.error\<close>.\<close>

record outcome =
  sent :: response
  api_calls :: "completion_request list"
  console_errors :: "(string \<times> js_error) list"

definition json_response :: "nat \<Rightarrow> jsval \<Rightarrow> response" where
  "json_response n v = \<lparr>status = n, payload = Some v\<rparr>"

text \<open>\<^verbatim>\<open>const { prompt, style, creativity } = b\<close>\<close>

definition destructure :: "jsval \<Rightarrow> js_error + (jsval \<times> jsval \<times> jsval)" where
  "destructure b =
     (case get_prop b ''prompt'' of Inl e \<Rightarrow> Inl e | Inr p \<Rightarrow>
      (case get_prop b ''style'' of Inl e \<Rightarrow> Inl e | Inr s \<Rightarrow>
       (case get_prop b ''creativity'' of Inl e \<Rightarrow> Inl e | Inr c \<Rightarrow> Inr (p, s, c))))"

text \<open>The template literal of line 19. It converts \<^verbatim>\<open>style\<close>, then \<^verbatim>\<open>creativity\<close>, to
  strings, and throws what a conversion throws.\<close>

definition enhancementInstruction ::
  "(rat \<Rightarrow> string) \<Rightarrow> jsval \<Rightarrow> jsval \<Rightarrow> js_error + string" where
  "enhancementInstruction fmt style creativity =
     (case to_string fmt style of
        Inl e \<Rightarrow> Inl e
      | Inr s \<Rightarrow>
          (case to_string fmt creativity of
             Inl e \<Rightarrow> Inl e
           | Inr c \<Rightarrow>
               Inr (''Enhance the following prompt using '' @ s @
                    '' style with creativity level '' @ c @ ''/10.'' @ [CHR 0x0A] @
                    ''Apply prompt engineering best practices to make it more effective for AI interaction.'' @
                    [CHR 0x0A] @
                    ''Return only the enhanced prompt without any additional explanations.'')))"

text \<open>\<^verbatim>\<open>completion.choices?.[0]?.message?.content || ''\<close>\<close>

definition first_choice_content :: "jsval \<Rightarrow> js_error + jsval" where
  "first_choice_content completion =
     (case get_prop completion ''choices'' of Inl e \<Rightarrow> Inl e | Inr choices \<Rightarrow>
      (case opt_index0 choices of Inl e \<Rightarrow> Inl e | Inr first \<Rightarrow>
       (case opt_prop first ''message'' of Inl e \<Rightarrow> Inl e | Inr msg \<Rightarrow>
        (case opt_prop msg ''content'' of Inl e \<Rightarrow> Inl e | Inr c \<Rightarrow>
           Inr (or_else c (JStr []))))))"

text \<open>The object handed to \<^verbatim>\<open>openai.chat.completions.create\<close>.\<close>

definition completion_call :: "string \<Rightarrow> jsval \<Rightarrow> completion_request" where
  "completion_call instruction prompt =
     \<lparr>model = [],
      messages =
        [\<lparr>role = ''system'', content = JStr instruction\<rparr>,
         \<lparr>role = ''user'', content = prompt\<rparr>],
      temperature = 7 / 10\<rparr>"

text \<open>The body of the \<^verbatim>\<open>try\<close> block: the value it returns or the exception it throws,
  with the completion requests submitted on the way.\<close>

definition try_block ::
  "'c runtime \<Rightarrow> request \<Rightarrow> (js_error + response) \<times> completion_request list" where
  "try_block rt req =
     (case destructure (or_else (req_body req) (JObj [])) of
        Inl e \<Rightarrow> (Inl e, [])
      | Inr (prompt, style, creativity) \<Rightarrow>
          if \<not> truthy prompt
          then (Inr (json_response 400 (JObj [(''error'', JStr ''Missing prompt'')])), [])
          else
            (case new_OpenAI rt (JObj [(''apiKey'', OPENAI_API_KEY rt)]) of
               Inl e \<Rightarrow> (Inl e, [])
             | Inr openai \<Rightarrow>
                 (case enhancementInstruction (frac_to_string rt) style creativity of
                    Inl e \<Rightarrow> (Inl e, [])
                  | Inr instruction \<Rightarrow>
                      let call = completion_call instruction prompt
                      in (case create rt openai call of
                            Inl e \<Rightarrow> (Inl e, [call])
                          | Inr completion \<Rightarrow>
                              (case first_choice_content completion of
                                 Inl e \<Rightarrow> (Inl e, [call])
                               | Inr enhancedPrompt \<Rightarrow>
                                   (Inr (json_response 200
                                           (JObj [(''enhancedPrompt'', enhancedPrompt)])),
                                    [call]))))))"

definition handler :: "'c runtime \<Rightarrow> request \<Rightarrow> outcome" where
  "handler rt req =
     (if req_method req = ''OPTIONS''
      then \<lparr>sent = \<lparr>status = 200, payload = None\<rparr>, api_calls = [], console_errors = []\<rparr>
      else if req_method req \<noteq> ''POST''
      then \<lparr>sent = json_response 405 (JObj [(''error'', JStr ''Method not allowed'')]),
            api_calls = [], console_errors = []\<rparr>
      else
        (case try_block rt req of
           (Inr r, calls) \<Rightarrow> \<lparr>sent = r, api_calls = calls, console_errors = []\<rparr>
         | (Inl error, calls) \<Rightarrow>
             \<lparr>sent = json_response 500 (JObj [(''error'', JStr ''Failed to enhance prompt'')]),
              api_calls = calls,
              console_errors = [(''Error enhancing prompt:'', error)]\<rparr>))"

section \<open>The form controller (\<^verbatim>\<open>js/script.js\<close>)\<close>

text \<open>
  The characters \<^verbatim>\<open>String.prototype.trim\<close> strips, among the code units a \<open>char\<close> can
  hold: tab, line feed, vertical tab, form feed, carriage return, space and no-break
  space. (The other white space of the language lies above U+00FF.)
\<close>

definition is_js_space :: "char \<Rightarrow> bool" where
  "is_js_space c = (c \<in> {CHR 0x09, CHR 0x0A, CHR 0x0B, CHR 0x0C, CHR 0x0D, CHR 0x20, CHR 0xA0})"

definition trim :: "string \<Rightarrow> string" where
  "trim s = rev (dropWhile is_js_space (rev (dropWhile is_js_space s)))"

text \<open>The part of the document the script reads and writes.\<close>

record page =
  prompt_value :: string
  style_value :: string
  creativity_value :: string
  loader_hidden :: bool
  button_disabled :: bool
  result_text :: string

text \<open>The arguments of one \<^verbatim>\<open>fetch\<close>; \<open>json_body\<close> is the object given to
  \<^verbatim>\<open>JSON.stringify\<close>.\<close>

record fetch_call =
  url :: string
  http_method :: string
  headers :: "(string \<times> string) list"
  json_body :: jsval

text \<open>A response as the script uses it: \<^verbatim>\<open>res.ok\<close> and \<^verbatim>\<open>await res.json()\<close>, which
  rejects when the body is not JSON.\<close>

record http_response =
  ok :: bool
  json :: "js_error + jsval"

text \<open>What the browser provides: \<^verbatim>\<open>fetch\<close> (rejecting when no response arrives),
  \<^verbatim>\<open>Number\<close> on a string, and the rendering of non-integral numbers.\<close>

record browser =
  fetch :: "fetch_call \<Rightarrow> js_error + http_response"
  Number_of :: "string \<Rightarrow> jsval"
  number_text :: "rat \<Rightarrow> string"

text \<open>One run of \<^verbatim>\<open>enhancePrompt()\<close>: the page when it is over, the alerts shown, the
  network calls issued, and the page as it stands while the call is awaited (\<open>None\<close> when
  the run issues no call).\<close>

record client_run =
  final :: page
  alerts :: "string list"
  fetched :: "fetch_call list"
  pending :: "page option"

text \<open>The body of the \<^verbatim>\<open>try\<close> block of \<^verbatim>\<open>enhancePrompt()\<close>: the text it assigns to
  \<^verbatim>\<open>resultEl.textContent\<close>, or the exception that reaches \<^verbatim>\<open>catch\<close>. The setter
  converts what it is given to a string, which may throw.\<close>

definition fetch_result :: "browser \<Rightarrow> fetch_call \<Rightarrow> js_error + string" where
  "fetch_result br call =
     (case fetch br call of
        Inl err \<Rightarrow> Inl err
      | Inr res \<Rightarrow>
          (case json res of
             Inl err \<Rightarrow> Inl err
           | Inr data \<Rightarrow>
               if ok res
               then (case get_prop data ''enhancedPrompt'' of
                       Inl err \<Rightarrow> Inl err
                     | Inr v \<Rightarrow> to_string (number_text br) (or_else v (JStr ''No result'')))
               else (case get_prop data ''error'' of
                       Inl err \<Rightarrow> Inl err
                     | Inr v \<Rightarrow>
                         to_string (number_text br)
                           (or_else v (JStr ''Failed to enhance prompt'')))))"

definition enhancePrompt :: "browser \<Rightarrow> page \<Rightarrow> client_run" where
  "enhancePrompt br pg =
     (let prompt = trim (prompt_value pg) in
      if \<not> truthy (JStr prompt)
      then \<lparr>final = pg, alerts = [''Please enter a prompt.''], fetched = [], pending = None\<rparr>
      else
        let busy = pg\<lparr>loader_hidden := False, button_disabled := True\<rparr>;
            call = \<lparr>url = ''/api/enhancePrompt'',
                    http_method = ''POST'',
                    headers = [(''Content-Type'', ''application/json'')],
                    json_body = JObj [(''prompt'', JStr prompt),
                                      (''style'', JStr (style_value pg)),
                                      (''creativity'', Number_of br (creativity_value pg))]\<rparr>;
            shown = (case fetch_result br call of
                       Inr text \<Rightarrow> text
                     | Inl err \<Rightarrow> ''Network error'')
        in \<lparr>final = busy\<lparr>result_text := shown, loader_hidden := True, button_disabled := False\<rparr>,
            alerts = [],
            fetched = [call],
            pending = Some busy\<rparr>)"

section \<open>The contract as the specification words it\<close>

text \<open>
  The sampling temperature of the specification: \<open>creativity / 10\<close> for a truthy number,
  one half when \<open>creativity\<close> is absent or falsy. For a truthy value that is not a
  number the specification names no temperature.
\<close>

definition spec_temperature :: "jsval \<Rightarrow> rat option" where
  "spec_temperature creativity =
     (case creativity of
        JNum r \<Rightarrow> Some (if r \<noteq> 0 then r / 10 else 1 / 2)
      | _ \<Rightarrow> (if truthy creativity then None else Some (1 / 2)))"

section \<open>Sample environments\<close>

text \<open>A runtime whose client constructor answers \<open>made\<close> and whose completion call
  answers \<open>answer\<close>, whatever it is asked.\<close>

definition stub_runtime ::
  "jsval \<Rightarrow> js_error + unit \<Rightarrow> js_error + jsval \<Rightarrow> unit runtime" where
  "stub_runtime key made answer =
     \<lparr>OPENAI_API_KEY = key, new_OpenAI = (\<lambda>_. made), create = (\<lambda>_ _. answer),
      frac_to_string = (\<lambda>_. [])\<rparr>"

text \<open>A completion with one choice carrying the given text.\<close>

definition completion_with :: "string \<Rightarrow> jsval" where
  "completion_with s = JObj [(''choices'', JArr [JObj [(''message'', JObj [(''content'', JStr s)])]])]"

text \<open>A browser whose \<^verbatim>\<open>fetch\<close> answers \<open>answer\<close> and in which the value of the range
  input converts to \<open>n\<close>.\<close>

definition stub_browser :: "js_error + http_response \<Rightarrow> jsval \<Rightarrow> browser" where
  "stub_browser answer n = \<lparr>fetch = (\<lambda>_. answer), Number_of = (\<lambda>_. n), number_text = (\<lambda>_. [])\<rparr>"

definition post :: "jsval \<Rightarrow> request" where
  "post b = \<lparr>req_method = ''POST'', req_body = b\<rparr>"

text \<open>The request of the specification's scenario, and a runtime in which the key is set
  and the remote service answers with one choice.\<close>

definition poem_body :: jsval where
  "poem_body = JObj [(''prompt'', JStr ''Write a poem''), (''style'', JStr ''creative''),
                     (''creativity'', JNum 8)]"

definition working_runtime :: "unit runtime" where
  "working_runtime =
     stub_runtime (JStr ''sk-test'') (Inr ()) (Inr (completion_with ''A refined poem prompt...''))"

text \<open>Runtimes in which the key is not set and the constructor throws, in which the
  completion call rejects, and in which it resolves to \<^verbatim>\<open>null\<close>.\<close>

definition keyless_runtime :: "unit runtime" where
  "keyless_runtime =
     stub_runtime JUndefined
       (Inl (Thrown ''OpenAIError'' ''The OPENAI_API_KEY environment variable is missing or empty''))
       (Inr JNull)"

definition failing_runtime :: "unit runtime" where
  "failing_runtime =
     stub_runtime (JStr ''sk-test'') (Inr ())
       (Inl (Thrown ''APIConnectionError'' ''Connection error.''))"

definition empty_runtime :: "unit runtime" where
  "empty_runtime = stub_runtime (JStr ''sk-test'') (Inr ()) (Inr JNull)"

text \<open>Two pages at rest: one whose textarea holds a space, a tab and a line feed, one
  filled in as in the specification's scenario.\<close>

definition blank_page :: page where
  "blank_page = \<lparr>prompt_value = [CHR 0x20, CHR 0x09, CHR 0x0A], style_value = ''concise'',
                  creativity_value = ''5'', loader_hidden = True, button_disabled = False,
                  result_text = []\<rparr>"

definition poem_page :: page where
  "poem_page = \<lparr>prompt_value = ''Write a poem'', style_value = ''creative'',
                 creativity_value = ''8'', loader_hidden = True, button_disabled = False,
                 result_text = []\<rparr>"

text \<open>The scenario's request with an object for a style, whose own \<^verbatim>\<open>toString\<close> is the
  number one; and a completion whose content is the number zero.\<close>

definition odd_style_body :: jsval where
  "odd_style_body = JObj [(''prompt'', JStr ''Write a poem''),
                          (''style'', JObj [(''toString'', JNum 1)]),
                          (''creativity'', JNum 8)]"


section \<open>Properties of the endpoint\<close>

lemmas endpoint_defs =
  handler_def try_block_def destructure_def or_else_def post_def stub_runtime_def
  completion_with_def completion_call_def first_choice_content_def opt_prop_def opt_index0_def
  json_response_def enhancementInstruction_def poem_body_def working_runtime_def

lemma get_prop_total: "\<not> nullish v \<Longrightarrow> \<exists>w. get_prop v name = Inr w"
  by (cases v) simp_all

lemma or_else_obj_not_nullish: "\<not> nullish (or_else b (JObj []))"
  by (cases b) (simp_all add: or_else_def)

text \<open>Destructuring the defaulted body never throws.\<close>

lemma destructure_total:
  "\<exists>p s c. destructure (or_else b (JObj [])) = Inr (p, s, c)"
proof -
  have n: "\<not> nullish (or_else b (JObj []))" by (rule or_else_obj_not_nullish)
  obtain p where p: "get_prop (or_else b (JObj [])) ''prompt'' = Inr p"
    using get_prop_total [OF n] by blast
  obtain s where s: "get_prop (or_else b (JObj [])) ''style'' = Inr s"
    using get_prop_total [OF n] by blast
  obtain c where c: "get_prop (or_else b (JObj [])) ''creativity'' = Inr c"
    using get_prop_total [OF n] by blast
  show ?thesis by (simp add: destructure_def p s c)
qed

text \<open>One invocation submits no completion request or exactly one, built by
  \<open>completion_call\<close>.\<close>

lemma api_calls_shape:
  "api_calls (handler rt req) = [] \<or>
   (\<exists>i p. api_calls (handler rt req) = [completion_call i p])"
  by (auto simp: handler_def try_block_def Let_def split: sum.splits prod.splits)

text \<open>Every completion request carries the temperature \<open>7/10\<close>, whatever the body says.\<close>

lemma temperature_constant:
  "c \<in> set (api_calls (handler rt req)) \<Longrightarrow> temperature c = 7 / 10"
  using api_calls_shape [of rt req] by (auto simp: completion_call_def)

text \<open>
  C1. The claim asks for the temperature \<open>creativity / 10\<close> (and one half without a
  creativity). On the scenario request, whose creativity is 8, the handler submits one
  completion request, with temperature \<open>7/10\<close>, where the specification's temperature is
  \<open>8/10\<close>; on the same prompt without a creativity it submits \<open>7/10\<close> again, where the
  specification's temperature is one half. The handler sends the literal \<^verbatim>\<open>0.7\<close> and
  never reads \<^verbatim>\<open>creativity\<close> for it.
\<close>

theorem temperature_ignores_creativity:
  "get_prop poem_body ''creativity'' = Inr (JNum 8) \<and>
   map temperature (api_calls (handler working_runtime (post poem_body))) = [7 / 10] \<and>
   spec_temperature (JNum 8) = Some (8 / 10) \<and>
   get_prop (JObj [(''prompt'', JStr ''Write a poem'')]) ''creativity'' = Inr JUndefined \<and>
   map temperature
     (api_calls (handler working_runtime (post (JObj [(''prompt'', JStr ''Write a poem'')])))) =
     [7 / 10] \<and>
   spec_temperature JUndefined = Some (1 / 2)"
  by (simp add: endpoint_defs spec_temperature_def)

text \<open>
  C3. In every completion request the handler submits, the model identifier is the empty
  string.
\<close>

theorem model_sent_is_empty:
  "c \<in> set (api_calls (handler rt req)) \<Longrightarrow> model c = []"
  using api_calls_shape [of rt req] by (auto simp: completion_call_def)

theorem model_sent_is_empty_witness:
  "completion_call
       (''Enhance the following prompt using creative style with creativity level 8/10.'' @
        [CHR 0x0A] @
        ''Apply prompt engineering best practices to make it more effective for AI interaction.'' @
        [CHR 0x0A] @
        ''Return only the enhanced prompt without any additional explanations.'')
       (JStr ''Write a poem'')
     \<in> set (api_calls (handler working_runtime (post poem_body))) \<and>
   model (completion_call
       (''Enhance the following prompt using creative style with creativity level 8/10.'' @
        [CHR 0x0A] @
        ''Apply prompt engineering best practices to make it more effective for AI interaction.'' @
        [CHR 0x0A] @
        ''Return only the enhanced prompt without any additional explanations.'')
       (JStr ''Write a poem'')) = []"
proof -
  have mem: "completion_call
       (''Enhance the following prompt using creative style with creativity level 8/10.'' @
        [CHR 0x0A] @
        ''Apply prompt engineering best practices to make it more effective for AI interaction.'' @
        [CHR 0x0A] @
        ''Return only the enhanced prompt without any additional explanations.'')
       (JStr ''Write a poem'')
     \<in> set (api_calls (handler working_runtime (post poem_body)))"
    by (simp add: endpoint_defs digits.simps)
  from mem model_sent_is_empty [OF mem] show ?thesis by (rule conjI)
qed

text \<open>
  C6. A request with method \<^verbatim>\<open>OPTIONS\<close> is answered 200 without a body; a request whose
  method is neither \<^verbatim>\<open>OPTIONS\<close> nor \<^verbatim>\<open>POST\<close> is answered 405 with the body
  \<^verbatim>\<open>{"error": "Method not allowed"}\<close>; neither submits a completion request.
\<close>

theorem method_precedence:
  "(req_method req = ''OPTIONS'' \<longrightarrow>
      sent (handler rt req) = \<lparr>status = 200, payload = None\<rparr> \<and>
      api_calls (handler rt req) = []) \<and>
   (req_method req \<noteq> ''OPTIONS'' \<and> req_method req \<noteq> ''POST'' \<longrightarrow>
      sent (handler rt req) =
        \<lparr>status = 405, payload = Some (JObj [(''error'', JStr ''Method not allowed'')])\<rparr> \<and>
      api_calls (handler rt req) = [])"
  by (simp add: handler_def json_response_def)

theorem method_precedence_witness:
  "sent (handler working_runtime \<lparr>req_method = ''OPTIONS'', req_body = poem_body\<rparr>) =
     \<lparr>status = 200, payload = None\<rparr> \<and>
   api_calls (handler working_runtime \<lparr>req_method = ''OPTIONS'', req_body = poem_body\<rparr>) = [] \<and>
   sent (handler working_runtime \<lparr>req_method = ''GET'', req_body = poem_body\<rparr>) =
     \<lparr>status = 405, payload = Some (JObj [(''error'', JStr ''Method not allowed'')])\<rparr> \<and>
   api_calls (handler working_runtime \<lparr>req_method = ''GET'', req_body = poem_body\<rparr>) = []"
  using method_precedence [of "\<lparr>req_method = ''OPTIONS'', req_body = poem_body\<rparr>" working_runtime]
        method_precedence [of "\<lparr>req_method = ''GET'', req_body = poem_body\<rparr>" working_runtime]
  by simp

lemma destructure_prompt:
  "destructure b = Inr (p, s, c) \<Longrightarrow> get_prop b ''prompt'' = Inr p"
  by (auto simp: destructure_def split: sum.splits)

text \<open>
  C2, as stated: a \<^verbatim>\<open>POST\<close> whose prompt is absent, empty or made of white space only is
  answered 400 and reaches no completion call. It fails for white space: the handler tests
  the prompt for truthiness and does not trim it, so the prompt of three spaces, which
  \<open>trim\<close> empties, is submitted to the completion call and the answer is relayed with
  status 200.
\<close>

theorem whitespace_prompt_is_forwarded:
  "trim ''   '' = [] \<and>
   sent (handler working_runtime (post (JObj [(''prompt'', JStr ''   '')]))) =
     \<lparr>status = 200,
      payload = Some (JObj [(''enhancedPrompt'', JStr ''A refined poem prompt...'')])\<rparr> \<and>
   api_calls (handler working_runtime (post (JObj [(''prompt'', JStr ''   '')]))) =
     [completion_call
        (''Enhance the following prompt using undefined style with creativity level undefined/10.'' @
        [CHR 0x0A] @
        ''Apply prompt engineering best practices to make it more effective for AI interaction.'' @
        [CHR 0x0A] @
        ''Return only the enhanced prompt without any additional explanations.'')
        (JStr ''   '')]"
  by (simp add: endpoint_defs trim_def is_js_space_def)

text \<open>
  C2, amended: a \<^verbatim>\<open>POST\<close> whose prompt is absent (the defaulted body has no such
  property) or is the empty string is answered 400 with the body
  \<^verbatim>\<open>{"error": "Missing prompt"}\<close>, and no completion request is submitted.
\<close>

theorem missing_prompt_rejected:
  assumes "req_method req = ''POST''"
    and "get_prop (or_else (req_body req) (JObj [])) ''prompt'' = Inr prompt"
    and "prompt = JUndefined \<or> prompt = JStr []"
  shows "sent (handler rt req) =
           \<lparr>status = 400, payload = Some (JObj [(''error'', JStr ''Missing prompt'')])\<rparr> \<and>
         api_calls (handler rt req) = []"
proof -
  obtain p s c where d: "destructure (or_else (req_body req) (JObj [])) = Inr (p, s, c)"
    using destructure_total by blast
  from destructure_prompt [OF d] assms(2) have "p = prompt" by simp
  with assms(3) have "\<not> truthy p" by auto
  with assms(1) d show ?thesis
    by (simp add: handler_def try_block_def json_response_def)
qed

theorem missing_prompt_rejected_witness:
  "sent (handler working_runtime (post (JObj [(''style'', JStr ''creative'')]))) =
     \<lparr>status = 400, payload = Some (JObj [(''error'', JStr ''Missing prompt'')])\<rparr> \<and>
   api_calls (handler working_runtime (post (JObj [(''style'', JStr ''creative'')]))) = [] \<and>
   sent (handler working_runtime (post (JObj [(''prompt'', JStr [])]))) =
     \<lparr>status = 400, payload = Some (JObj [(''error'', JStr ''Missing prompt'')])\<rparr> \<and>
   api_calls (handler working_runtime (post (JObj [(''prompt'', JStr [])]))) = []"
proof -
  have a: "sent (handler working_runtime (post (JObj [(''style'', JStr ''creative'')]))) =
     \<lparr>status = 400, payload = Some (JObj [(''error'', JStr ''Missing prompt'')])\<rparr> \<and>
   api_calls (handler working_runtime (post (JObj [(''style'', JStr ''creative'')]))) = []"
    by (rule missing_prompt_rejected [where prompt = JUndefined])
       (simp_all add: post_def or_else_def)
  have b: "sent (handler working_runtime (post (JObj [(''prompt'', JStr [])]))) =
     \<lparr>status = 400, payload = Some (JObj [(''error'', JStr ''Missing prompt'')])\<rparr> \<and>
   api_calls (handler working_runtime (post (JObj [(''prompt'', JStr [])]))) = []"
    by (rule missing_prompt_rejected [where prompt = "JStr []"])
       (simp_all add: post_def or_else_def)
  from a b show ?thesis by simp
qed

text \<open>
  C8. A \<^verbatim>\<open>POST\<close> whose body is absent (or otherwise falsy), or is not an object, or holds
  a falsy prompt, makes the \<^verbatim>\<open>try\<close> block return the 400 response: nothing is thrown,
  nothing is logged, no completion request is submitted.
\<close>

theorem falsy_prompt_returns_normally:
  assumes "req_method req = ''POST''"
    and "\<not> truthy (req_body req) \<or> (\<forall>kvs. req_body req \<noteq> JObj kvs) \<or>
         (\<exists>p. get_prop (req_body req) ''prompt'' = Inr p \<and> \<not> truthy p)"
  shows "try_block rt req =
           (Inr \<lparr>status = 400, payload = Some (JObj [(''error'', JStr ''Missing prompt'')])\<rparr>, []) \<and>
         handler rt req =
           \<lparr>sent = \<lparr>status = 400, payload = Some (JObj [(''error'', JStr ''Missing prompt'')])\<rparr>,
            api_calls = [], console_errors = []\<rparr>"
proof -
  obtain p s c where d: "destructure (or_else (req_body req) (JObj [])) = Inr (p, s, c)"
    using destructure_total by blast
  have p: "get_prop (or_else (req_body req) (JObj [])) ''prompt'' = Inr p"
    by (rule destructure_prompt [OF d])
  have "\<not> truthy p"
    using assms(2) p by (cases "req_body req") (auto simp: or_else_def split: if_splits)
  with assms(1) d show ?thesis
    by (simp add: handler_def try_block_def json_response_def)
qed

theorem falsy_prompt_returns_normally_witness:
  "map (\<lambda>b. handler working_runtime (post b))
     [JUndefined, JNull, JStr ''Write a poem'', JNum 5, JArr [JStr ''Write a poem''],
      JObj [(''prompt'', JNull)], JObj [(''prompt'', JStr [])], JObj [(''prompt'', JNum 0)],
      JObj [(''prompt'', JBool False)], JObj [(''style'', JStr ''creative'')]] =
   replicate 10
     \<lparr>sent = \<lparr>status = 400, payload = Some (JObj [(''error'', JStr ''Missing prompt'')])\<rparr>,
      api_calls = [], console_errors = []\<rparr>"
proof -
  have r: "handler working_runtime (post b) =
      \<lparr>sent = \<lparr>status = 400, payload = Some (JObj [(''error'', JStr ''Missing prompt'')])\<rparr>,
       api_calls = [], console_errors = []\<rparr>"
    if "\<not> truthy b \<or> (\<forall>kvs. b \<noteq> JObj kvs) \<or>
        (\<exists>p. get_prop b ''prompt'' = Inr p \<and> \<not> truthy p)" for b
    using falsy_prompt_returns_normally [of "post b" working_runtime] that
    by (simp add: post_def)
  show ?thesis
    by (simp add: r numeral_eq_Suc)
qed

text \<open>
  C4. For a \<^verbatim>\<open>POST\<close> with a truthy prompt, whatever is thrown by the construction of the
  client, by the construction of the instruction string, by the completion call or by the
  extraction of the content, the response is 500 with the literal body
  \<^verbatim>\<open>{"error": "Failed to enhance prompt"}\<close>, the same for every error; the error itself
  goes to \<^verbatim>\<open>console.error\<close> only.
\<close>

theorem failure_is_generic:
  assumes "req_method req = ''POST''"
    and "destructure (or_else (req_body req) (JObj [])) = Inr (prompt, style, creativity)"
    and "truthy prompt"
    and "new_OpenAI rt (JObj [(''apiKey'', OPENAI_API_KEY rt)]) = Inl e \<or>
         (\<exists>openai. new_OpenAI rt (JObj [(''apiKey'', OPENAI_API_KEY rt)]) = Inr openai \<and>
            (enhancementInstruction (frac_to_string rt) style creativity = Inl e \<or>
             (\<exists>instruction.
                enhancementInstruction (frac_to_string rt) style creativity = Inr instruction \<and>
                (create rt openai (completion_call instruction prompt) = Inl e \<or>
                 (\<exists>completion.
                    create rt openai (completion_call instruction prompt) = Inr completion \<and>
                    first_choice_content completion = Inl e)))))"
  shows "sent (handler rt req) =
           \<lparr>status = 500, payload = Some (JObj [(''error'', JStr ''Failed to enhance prompt'')])\<rparr> \<and>
         console_errors (handler rt req) = [(''Error enhancing prompt:'', e)]"
  using assms by (auto simp: handler_def try_block_def json_response_def Let_def)

theorem failure_is_generic_witness:
  "sent (handler keyless_runtime (post poem_body)) =
     \<lparr>status = 500, payload = Some (JObj [(''error'', JStr ''Failed to enhance prompt'')])\<rparr> \<and>
   sent (handler working_runtime (post odd_style_body)) =
     \<lparr>status = 500, payload = Some (JObj [(''error'', JStr ''Failed to enhance prompt'')])\<rparr> \<and>
   console_errors (handler working_runtime (post odd_style_body)) =
     [(''Error enhancing prompt:'', TypeError)] \<and>
   sent (handler failing_runtime (post poem_body)) =
     \<lparr>status = 500, payload = Some (JObj [(''error'', JStr ''Failed to enhance prompt'')])\<rparr> \<and>
   console_errors (handler failing_runtime (post poem_body)) =
     [(''Error enhancing prompt:'', Thrown ''APIConnectionError'' ''Connection error.'')] \<and>
   sent (handler empty_runtime (post poem_body)) =
     \<lparr>status = 500, payload = Some (JObj [(''error'', JStr ''Failed to enhance prompt'')])\<rparr> \<and>
   console_errors (handler empty_runtime (post poem_body)) = [(''Error enhancing prompt:'', TypeError)]"
proof -
  have d: "destructure (or_else (req_body (post poem_body)) (JObj [])) =
             Inr (JStr ''Write a poem'', JStr ''creative'', JNum 8)"
    by (simp add: post_def poem_body_def or_else_def destructure_def)
  have d': "destructure (or_else (req_body (post odd_style_body)) (JObj [])) =
             Inr (JStr ''Write a poem'', JObj [(''toString'', JNum 1)], JNum 8)"
    by (simp add: post_def odd_style_body_def or_else_def destructure_def)
  have m: "req_method (post b) = ''POST''" for b by (simp add: post_def)
  have t: "truthy (JStr ''Write a poem'')" by simp
  have a: "sent (handler keyless_runtime (post poem_body)) =
     \<lparr>status = 500, payload = Some (JObj [(''error'', JStr ''Failed to enhance prompt'')])\<rparr> \<and>
     console_errors (handler keyless_runtime (post poem_body)) =
       [(''Error enhancing prompt:'',
         Thrown ''OpenAIError'' ''The OPENAI_API_KEY environment variable is missing or empty'')]"
    by (rule failure_is_generic [OF m d t]) (simp add: keyless_runtime_def stub_runtime_def)
  have i: "sent (handler working_runtime (post odd_style_body)) =
     \<lparr>status = 500, payload = Some (JObj [(''error'', JStr ''Failed to enhance prompt'')])\<rparr> \<and>
     console_errors (handler working_runtime (post odd_style_body)) =
       [(''Error enhancing prompt:'', TypeError)]"
    by (rule failure_is_generic [OF m d' t])
       (simp add: working_runtime_def stub_runtime_def enhancementInstruction_def)
  have b: "sent (handler failing_runtime (post poem_body)) =
     \<lparr>status = 500, payload = Some (JObj [(''error'', JStr ''Failed to enhance prompt'')])\<rparr> \<and>
     console_errors (handler failing_runtime (post poem_body)) =
       [(''Error enhancing prompt:'', Thrown ''APIConnectionError'' ''Connection error.'')]"
    by (rule failure_is_generic [OF m d t])
       (simp add: failing_runtime_def stub_runtime_def enhancementInstruction_def)
  have c: "sent (handler empty_runtime (post poem_body)) =
     \<lparr>status = 500, payload = Some (JObj [(''error'', JStr ''Failed to enhance prompt'')])\<rparr> \<and>
     console_errors (handler empty_runtime (post poem_body)) = [(''Error enhancing prompt:'', TypeError)]"
    by (rule failure_is_generic [OF m d t])
       (simp add: empty_runtime_def stub_runtime_def first_choice_content_def
          enhancementInstruction_def)
  from a i b c show ?thesis by simp
qed








text \<open>
  C7, as stated: every \<^verbatim>\<open>POST\<close> with a truthy prompt submits exactly one completion
  request. It fails when the constructor of the client throws (the key is not set) and
  when the conversion of the style to a string throws (the style is an object with a
  property \<^verbatim>\<open>toString\<close>): both happen before the completion call, no request is
  submitted, and the response is 500.
\<close>

theorem no_request_without_client_or_instruction:
  "get_prop poem_body ''prompt'' = Inr (JStr ''Write a poem'') \<and>
   api_calls (handler keyless_runtime (post poem_body)) = [] \<and>
   sent (handler keyless_runtime (post poem_body)) =
     \<lparr>status = 500, payload = Some (JObj [(''error'', JStr ''Failed to enhance prompt'')])\<rparr> \<and>
   get_prop odd_style_body ''prompt'' = Inr (JStr ''Write a poem'') \<and>
   api_calls (handler working_runtime (post odd_style_body)) = [] \<and>
   sent (handler working_runtime (post odd_style_body)) =
     \<lparr>status = 500, payload = Some (JObj [(''error'', JStr ''Failed to enhance prompt'')])\<rparr>"
  by (simp add: endpoint_defs keyless_runtime_def odd_style_body_def)

text \<open>
  C7, amended: for a \<^verbatim>\<open>POST\<close> with a truthy prompt, when the client is constructed and
  the style and the creativity of the body convert to strings, exactly one completion
  request is submitted; its messages are a \<^verbatim>\<open>system\<close> message whose content is the
  instruction text with those two strings in place (a string converts to itself, 8 to
  \<^verbatim>\<open>8\<close>), followed by a \<^verbatim>\<open>user\<close> message whose content is the prompt itself.
\<close>

theorem one_request_with_instruction_and_prompt:
  assumes "req_method req = ''POST''"
    and "destructure (or_else (req_body req) (JObj [])) = Inr (prompt, style, creativity)"
    and "truthy prompt"
    and "new_OpenAI rt (JObj [(''apiKey'', OPENAI_API_KEY rt)]) = Inr openai"
    and "to_string (frac_to_string rt) style = Inr s"
    and "to_string (frac_to_string rt) creativity = Inr c"
  shows "\<exists>call. api_calls (handler rt req) = [call] \<and>
           messages call =
             [\<lparr>role = ''system'',
               content = JStr (''Enhance the following prompt using '' @ s @
                               '' style with creativity level '' @ c @ ''/10.'' @ [CHR 0x0A] @
                               ''Apply prompt engineering best practices to make it more effective for AI interaction.'' @
                               [CHR 0x0A] @
                               ''Return only the enhanced prompt without any additional explanations.'')\<rparr>,
              \<lparr>role = ''user'', content = prompt\<rparr>]"
  using assms
  by (auto simp: handler_def try_block_def Let_def completion_call_def enhancementInstruction_def
           split: sum.splits)

theorem one_request_with_instruction_and_prompt_witness:
  "map messages (api_calls (handler working_runtime (post poem_body))) =
     [[\<lparr>role = ''system'',
        content = JStr (''Enhance the following prompt using creative style with creativity level 8/10.'' @
                        [CHR 0x0A] @
                        ''Apply prompt engineering best practices to make it more effective for AI interaction.'' @
                        [CHR 0x0A] @
                        ''Return only the enhanced prompt without any additional explanations.'')\<rparr>,
       \<lparr>role = ''user'', content = JStr ''Write a poem''\<rparr>]]"
proof -
  have d: "destructure (or_else (req_body (post poem_body)) (JObj [])) =
             Inr (JStr ''Write a poem'', JStr ''creative'', JNum 8)"
    by (simp add: post_def poem_body_def or_else_def destructure_def)
  have m: "req_method (post poem_body) = ''POST''" by (simp add: post_def)
  have t: "truthy (JStr ''Write a poem'')" by simp
  have c: "new_OpenAI working_runtime (JObj [(''apiKey'', OPENAI_API_KEY working_runtime)]) = Inr ()"
    by (simp add: working_runtime_def stub_runtime_def)
  have s: "to_string (frac_to_string working_runtime) (JStr ''creative'') = Inr ''creative''"
    by simp
  have n: "to_string (frac_to_string working_runtime) (JNum 8) = Inr ''8''"
    by (simp add: digits.simps)
  from one_request_with_instruction_and_prompt [OF m d t c s n]
  show ?thesis by auto
qed

section \<open>Properties of the form controller\<close>

text \<open>
  C9. When the textarea is empty after trimming, \<^verbatim>\<open>enhancePrompt()\<close> shows the alert and
  issues no network call.
\<close>

theorem empty_prompt_alerts_locally:
  "trim (prompt_value pg) = [] \<Longrightarrow>
     alerts (enhancePrompt br pg) = [''Please enter a prompt.''] \<and>
     fetched (enhancePrompt br pg) = []"
  by (simp add: enhancePrompt_def)

theorem empty_prompt_alerts_locally_witness:
  "trim (prompt_value blank_page) = [] \<and>
   alerts (enhancePrompt (stub_browser (Inl TypeError) (JNum 5)) blank_page) =
     [''Please enter a prompt.''] \<and>
   fetched (enhancePrompt (stub_browser (Inl TypeError) (JNum 5)) blank_page) = []"
proof -
  have e: "trim (prompt_value blank_page) = []"
    by (simp add: blank_page_def trim_def is_js_space_def)
  from e empty_prompt_alerts_locally [OF e] show ?thesis by (rule conjI)
qed

text \<open>A run whose prompt is not empty after trimming enters the busy state and issues
  one network call.\<close>

lemma nonempty_prompt_enters_busy:
  "trim (prompt_value pg) \<noteq> [] \<Longrightarrow>
     pending (enhancePrompt br pg) = Some (pg\<lparr>loader_hidden := False, button_disabled := True\<rparr>) \<and>
     length (fetched (enhancePrompt br pg)) = 1"
  by (simp add: enhancePrompt_def Let_def)

text \<open>
  C10. Every run that enters the busy state (loader shown, button disabled while the call
  is awaited) ends with the loader hidden and the button enabled, whatever \<^verbatim>\<open>fetch\<close> and
  \<^verbatim>\<open>res.json()\<close> do: a success, a non-success response, a rejection.
\<close>

theorem busy_state_cleared:
  "pending (enhancePrompt br pg) = Some busy \<Longrightarrow>
     \<not> loader_hidden busy \<and> button_disabled busy \<and>
     loader_hidden (final (enhancePrompt br pg)) \<and>
     \<not> button_disabled (final (enhancePrompt br pg))"
  by (auto simp: enhancePrompt_def Let_def split: if_splits)

theorem busy_state_cleared_witness:
  "(pending (enhancePrompt
       (stub_browser (Inr \<lparr>ok = True, json = Inr (JObj [(''enhancedPrompt'', JStr ''A refined poem prompt...'')])\<rparr>)
          (JNum 8)) poem_page) =
      Some (poem_page\<lparr>loader_hidden := False, button_disabled := True\<rparr>) \<and>
    loader_hidden (final (enhancePrompt
       (stub_browser (Inr \<lparr>ok = True, json = Inr (JObj [(''enhancedPrompt'', JStr ''A refined poem prompt...'')])\<rparr>)
          (JNum 8)) poem_page)) \<and>
    \<not> button_disabled (final (enhancePrompt
       (stub_browser (Inr \<lparr>ok = True, json = Inr (JObj [(''enhancedPrompt'', JStr ''A refined poem prompt...'')])\<rparr>)
          (JNum 8)) poem_page))) \<and>
   (loader_hidden (final (enhancePrompt
       (stub_browser (Inr \<lparr>ok = False, json = Inr (JObj [(''error'', JStr ''Failed to enhance prompt'')])\<rparr>)
          (JNum 8)) poem_page)) \<and>
    \<not> button_disabled (final (enhancePrompt
       (stub_browser (Inr \<lparr>ok = False, json = Inr (JObj [(''error'', JStr ''Failed to enhance prompt'')])\<rparr>)
          (JNum 8)) poem_page))) \<and>
   (loader_hidden (final (enhancePrompt
       (stub_browser (Inl (Thrown ''TypeError'' ''Failed to fetch'')) (JNum 8)) poem_page)) \<and>
    \<not> button_disabled (final (enhancePrompt
       (stub_browser (Inl (Thrown ''TypeError'' ''Failed to fetch'')) (JNum 8)) poem_page)))"
proof -
  have p: "pending (enhancePrompt (stub_browser answer (JNum 8)) poem_page) =
             Some (poem_page\<lparr>loader_hidden := False, button_disabled := True\<rparr>)" for answer
    by (simp add: enhancePrompt_def poem_page_def trim_def is_js_space_def Let_def)
  show ?thesis
    using busy_state_cleared [OF p] p by simp
qed

end
